theory Spec2Isabelle
  imports Main
begin

section \<open>Go strings and the library functions the builder calls\<close>

text \<open>
  A Go \<open>string\<close> is a sequence of bytes; it is modelled as a \<open>char list\<close>, one
  \<open>char\<close> for each byte. The functions of packages \<open>strings\<close>, \<open>regexp\<close> and \<open>fmt\<close>
  that \<open>query.go\<close> calls are modelled here, each for the arguments the source gives it.
\<close>

type_synonym gostring = string

definition dquote :: char where
  "dquote = CHR 0x22"

definition squote :: char where
  "squote = CHR 0x27"

definition isUpperAscii :: "char \<Rightarrow> bool" where
  "isUpperAscii c = (65 \<le> (of_char c :: nat) \<and> (of_char c :: nat) \<le> 90)"

definition lowerAscii :: "char \<Rightarrow> char" where
  "lowerAscii c = (if isUpperAscii c then char_of ((of_char c :: nat) + 32) else c)"

text \<open>
  \<open>strings.ToLower\<close> maps every rune of the UTF-8 decoding to its lower case. On ASCII
  bytes that is \<open>lowerAscii\<close>. Exactly two runes outside ASCII have an ASCII lower case:
  U+0130 (bytes C4 B0) becomes \<open>i\<close> and U+212A (bytes E2 84 AA) becomes \<open>k\<close>. Every other
  rune outside ASCII, and every byte that is not valid UTF-8, becomes bytes outside
  ASCII again; the model leaves those bytes in place, which gives the same answer to every
  search for an ASCII pattern, the only use the source makes of the lowered string.
\<close>

fun ToLower :: "gostring \<Rightarrow> gostring" where
  "ToLower [] = []"
| "ToLower (c # cs) =
     (if c = CHR 0xC4 \<and> take 1 cs = [CHR 0xB0] then CHR ''i'' # ToLower (drop 1 cs)
      else if c = CHR 0xE2 \<and> take 2 cs = [CHR 0x84, CHR 0xAA] then CHR ''k'' # ToLower (drop 2 cs)
      else lowerAscii c # ToLower cs)"

fun HasPrefix :: "gostring \<Rightarrow> gostring \<Rightarrow> bool" where
  "HasPrefix s [] = True"
| "HasPrefix [] (p # ps) = False"
| "HasPrefix (c # cs) (p # ps) = (c = p \<and> HasPrefix cs ps)"

fun Contains :: "gostring \<Rightarrow> gostring \<Rightarrow> bool" where
  "Contains [] substr = (substr = [])"
| "Contains (c # cs) substr = (HasPrefix (c # cs) substr \<or> Contains cs substr)"

text \<open>
  \<open>strings.ReplaceAll s old new\<close> replaces the non-overlapping occurrences of \<open>old\<close>
  from left to right. The source only calls it with a non-empty \<open>old\<close>; for an empty
  \<open>old\<close> (where Go inserts \<open>new\<close> around every rune) the model returns \<open>s\<close>.
\<close>

function ReplaceAll :: "gostring \<Rightarrow> gostring \<Rightarrow> gostring \<Rightarrow> gostring" where
  "ReplaceAll [] old new = []"
| "ReplaceAll (c # cs) old new =
     (if old \<noteq> [] \<and> HasPrefix (c # cs) old
      then new @ ReplaceAll (drop (length old) (c # cs)) old new
      else c # ReplaceAll cs old new)"
  by pat_completeness auto
termination
  by (relation "measure (\<lambda>(s, old, new). length s)") (auto simp: neq_Nil_conv)

fun stringsJoin :: "gostring list \<Rightarrow> gostring \<Rightarrow> gostring" where
  "stringsJoin [] sep = []"
| "stringsJoin [e] sep = e"
| "stringsJoin (e # f # es) sep = e @ sep @ stringsJoin (f # es) sep"

definition isSpaceAscii :: "char \<Rightarrow> bool" where
  "isSpaceAscii c = (c \<in> set [CHR 0x09, CHR 0x0A, CHR 0x0B, CHR 0x0C, CHR 0x0D, CHR 0x20])"

text \<open>
  \<open>strings.TrimSpace\<close>. Its only call site passes a string that holds bytes of
  \<open>[a-zA-Z0-9_.*]\<close> alone, so the white space of Unicode outside ASCII cannot occur.
\<close>

definition TrimSpace :: "gostring \<Rightarrow> gostring" where
  "TrimSpace s = rev (dropWhile isSpaceAscii (rev (dropWhile isSpaceAscii s)))"

text \<open>\<open>fmt.Sprintf("%d", n)\<close>: the decimal digits, with a minus sign below zero.\<close>

fun digits :: "nat \<Rightarrow> gostring" where
  "digits n =
     (if n < 10 then [''0123456789'' ! n]
      else digits (n div 10) @ [''0123456789'' ! (n mod 10)])"

declare digits.simps [simp del]

definition formatInt :: "int \<Rightarrow> gostring" where
  "formatInt n = (if n < 0 then ''-'' @ digits (nat (- n)) else digits (nat n))"

subsection \<open>The case-insensitive keyword pattern\<close>

text \<open>
  \<open>regexp.MustCompile(`(?i)(drop|delete|...)`)\<close>. Under \<open>(?i)\<close> a letter of the pattern
  matches each rune of its simple case folding orbit: both ASCII cases, and for \<open>s\<close> also
  U+017F (bytes C5 BF), for \<open>k\<close> also U+212A (bytes E2 84 AA). \<open>matchFold p s\<close> matches the
  lower-case literal \<open>p\<close> at the start of \<open>s\<close> and returns the rest of \<open>s\<close>.
\<close>

fun matchFold :: "gostring \<Rightarrow> gostring \<Rightarrow> gostring option" where
  "matchFold [] s = Some s"
| "matchFold (p # ps) [] = None"
| "matchFold (p # ps) (c # cs) =
     (if lowerAscii c = p then matchFold ps cs
      else if p = CHR ''s'' \<and> c = CHR 0xC5 \<and> take 1 cs = [CHR 0xBF]
        then matchFold ps (drop 1 cs)
      else if p = CHR ''k'' \<and> c = CHR 0xE2 \<and> take 2 cs = [CHR 0x84, CHR 0xAA]
        then matchFold ps (drop 2 cs)
      else None)"

text \<open>
  An alternation prefers its earlier branches (leftmost-first matching): at one
  position \<open>exec\<close> wins over \<open>execute\<close>.
\<close>

fun matchAlternation :: "gostring list \<Rightarrow> gostring \<Rightarrow> gostring option" where
  "matchAlternation [] s = None"
| "matchAlternation (k # ks) s =
     (case matchFold k s of Some rest \<Rightarrow> Some rest | None \<Rightarrow> matchAlternation ks s)"

definition keywordAlternation :: "gostring list" where
  "keywordAlternation =
     [''drop'', ''delete'', ''insert'', ''update'', ''create'', ''alter'', ''truncate'',
      ''exec'', ''execute'']"

lemma matchFold_length: "matchFold p s = Some r \<Longrightarrow> length r + length p \<le> length s"
  by (induction p s rule: matchFold.induct) (auto split: if_splits)

lemma matchAlternation_length:
  assumes "matchAlternation ks s = Some r" and "\<forall>k \<in> set ks. k \<noteq> []"
  shows "length r < length s"
  using assms
proof (induction ks)
  case Nil
  then show ?case by simp
next
  case (Cons k ks)
  show ?case
  proof (cases "matchFold k s")
    case None
    with Cons show ?thesis by simp
  next
    case (Some r')
    with Cons.prems have "r' = r" by simp
    moreover have "k \<noteq> []" using Cons.prems by simp
    ultimately show ?thesis using matchFold_length[OF Some] by (cases k) auto
  qed
qed

text \<open>
  \<open>re.ReplaceAllString(identifier, "")\<close>: one pass from left to right; where the pattern
  matches, the match is dropped and the scan goes on behind it; elsewhere the byte is
  kept. Every keyword starts with an ASCII letter, and an ASCII byte is always the start
  of a rune, so scanning by bytes finds the matches the rune scanner of Go finds.
\<close>

function ReplaceAllKeywords :: "gostring \<Rightarrow> gostring" where
  "ReplaceAllKeywords [] = []"
| "ReplaceAllKeywords (c # cs) =
     (case matchAlternation keywordAlternation (c # cs) of
        Some rest \<Rightarrow> ReplaceAllKeywords rest
      | None \<Rightarrow> c # ReplaceAllKeywords cs)"
  by pat_completeness auto
termination
proof (relation "measure length")
  show "wf (measure length)" by simp
next
  fix c cs rest
  assume "matchAlternation keywordAlternation (c # cs) = Some rest"
  then have "length rest < length (c # cs)"
    by (rule matchAlternation_length) (simp add: keywordAlternation_def)
  then show "(rest, c # cs) \<in> measure length" by simp
next
  fix c :: char and cs :: gostring
  show "(cs, c # cs) \<in> measure length" by simp
qed

section \<open>The identifier safety layer\<close>

definition escapeIdentifier :: "gostring \<Rightarrow> gostring" where
  "escapeIdentifier identifier = (let cleaned = ReplaceAllKeywords identifier in cleaned)"

definition isSimpleChar :: "char \<Rightarrow> bool" where
  "isSimpleChar c =
     (c \<in> set ''abcdefghijklmnopqrstuvwxyzABCDEFGHIJKLMNOPQRSTUVWXYZ0123456789_.*'')"

definition blacklist :: "gostring list" where
  "blacklist =
     [''drop'', ''delete'', ''insert'', ''update'', ''create'', ''alter'', ''truncate'',
      ''exec'', ''execute'']"

text \<open>
  \<open>escapeSimpleIdentifier\<close>: the pattern \<open>[^a-zA-Z0-9_.*]\<close> removes every rune outside
  the class, hence every byte outside it. The loop tests each keyword against \<open>lower\<close>,
  computed once before the loop, and removes it from \<open>cleaned\<close> as it is spelled in the
  blacklist (\<open>strings.ReplaceAll\<close> compares bytes).
\<close>

definition escapeSimpleIdentifier :: "gostring \<Rightarrow> gostring" where
  "escapeSimpleIdentifier identifier =
     (let cleaned = filter isSimpleChar identifier;
          lower = ToLower (TrimSpace cleaned)
      in foldl (\<lambda>cleaned keyword.
                  if Contains lower keyword then ReplaceAll cleaned keyword [] else cleaned)
           cleaned blacklist)"

definition dangerousPatterns :: "gostring list" where
  "dangerousPatterns =
     [[squote, CHR '';''], [dquote, CHR '';''], ''--'', ''/*'', ''*/'', ''drop'', ''delete'',
      ''insert'', ''update'', ''create'', ''alter'', ''truncate'', ''exec'', ''execute'',
      ''union'', ''select'', ''into'', ''from'', ''where'', ''join'']"

definition isValidIdentifier :: "gostring \<Rightarrow> bool" where
  "isValidIdentifier identifier =
     (if identifier = [] then False
      else let lower = ToLower identifier
           in \<not> list_ex (\<lambda>pattern. Contains lower pattern) dangerousPatterns)"

definition safeIdentifier :: "gostring \<Rightarrow> gostring" where
  "safeIdentifier identifier =
     (if isValidIdentifier identifier \<and> \<not> Contains identifier [dquote]
         \<and> \<not> Contains identifier [squote]
      then identifier
      else let escaped = escapeIdentifier identifier;
               escaped = ReplaceAll escaped [dquote] [dquote, dquote]
           in [dquote] @ escaped @ [dquote])"

section \<open>The builder\<close>

text \<open>
  \<open>ParameterStyle\<close> and \<open>QueryType\<close> are Go integer types with named constants; the
  \<open>switch\<close> statements that read them have a \<open>default\<close> branch, kept in the model.
  A value bound to a placeholder (\<open>interface{}\<close>) is opaque: the type variable \<open>'v\<close>.
\<close>

type_synonym ParameterStyle = int

definition QuestionMark :: ParameterStyle where
  "QuestionMark = 0"

definition DollarNumber :: ParameterStyle where
  "DollarNumber = 1"

type_synonym QueryType = int

definition SelectQuery :: QueryType where
  "SelectQuery = 0"

definition InsertQuery :: QueryType where
  "InsertQuery = 1"

definition UpdateQuery :: QueryType where
  "UpdateQuery = 2"

definition DeleteQuery :: QueryType where
  "DeleteQuery = 3"

record 'v Query =
  SQL :: gostring
  Params :: "'v list"

record 'v WhereClause =
  Column :: gostring
  Operator :: gostring
  Value :: 'v
  JoinType :: gostring

record JoinClause =
  Type :: gostring
  JTable :: gostring
  Alias :: gostring
  Condition :: gostring

record 'v QueryBuilder =
  queryType :: QueryType
  table :: gostring
  tableAlias :: gostring
  columns :: "gostring list"
  whereClauses :: "'v WhereClause list"
  joinClauses :: "JoinClause list"
  order :: gostring
  limit :: int
  offset :: int
  paramStyle :: ParameterStyle
  insertColumns :: "gostring list"
  insertValues :: "'v list"
  updateColumns :: "gostring list"
  updateValues :: "'v list"

text \<open>
  The methods mutate the builder behind the pointer and return the same pointer; the
  model passes the builder record through. Fields that \<open>NewQueryBuilder\<close> does not set
  hold Go's zero values.
\<close>

definition NewQueryBuilder :: "'v QueryBuilder" where
  "NewQueryBuilder =
     \<lparr>queryType = SelectQuery, table = [], tableAlias = [], columns = [''*''],
      whereClauses = [], joinClauses = [], order = [], limit = 0, offset = 0,
      paramStyle = DollarNumber, insertColumns = [], insertValues = [],
      updateColumns = [], updateValues = []\<rparr>"

definition ParameterPlaceholder :: "ParameterStyle \<Rightarrow> 'v QueryBuilder \<Rightarrow> 'v QueryBuilder" where
  "ParameterPlaceholder style b = b\<lparr>paramStyle := style\<rparr>"

definition Table :: "gostring \<Rightarrow> 'v QueryBuilder \<Rightarrow> 'v QueryBuilder" where
  "Table t b = b\<lparr>table := t\<rparr>"

definition Select :: "gostring list \<Rightarrow> 'v QueryBuilder \<Rightarrow> 'v QueryBuilder" where
  "Select cols b =
     (let b = b\<lparr>queryType := SelectQuery\<rparr>
      in if length cols > 0 then b\<lparr>columns := cols\<rparr> else b)"

text \<open>
  \<open>Insert\<close> and \<open>Update\<close> take a Go map and append its entries in the order the
  \<open>range\<close> loop visits them, which Go leaves unspecified. The model takes the entries as
  a list in the order of that visit.
\<close>

definition Insert :: "(gostring \<times> 'v) list \<Rightarrow> 'v QueryBuilder \<Rightarrow> 'v QueryBuilder" where
  "Insert data b =
     foldl (\<lambda>b (column, val).
              b\<lparr>insertColumns := insertColumns b @ [column],
                insertValues := insertValues b @ [val]\<rparr>)
       (b\<lparr>queryType := InsertQuery, insertColumns := [], insertValues := []\<rparr>) data"

definition InsertColumns :: "gostring list \<Rightarrow> 'v QueryBuilder \<Rightarrow> 'v QueryBuilder" where
  "InsertColumns cols b = b\<lparr>queryType := InsertQuery, insertColumns := cols\<rparr>"

definition Values :: "'v list \<Rightarrow> 'v QueryBuilder \<Rightarrow> 'v QueryBuilder" where
  "Values vals b = b\<lparr>insertValues := vals\<rparr>"

definition Update :: "(gostring \<times> 'v) list \<Rightarrow> 'v QueryBuilder \<Rightarrow> 'v QueryBuilder" where
  "Update data b =
     foldl (\<lambda>b (column, val).
              b\<lparr>updateColumns := updateColumns b @ [column],
                updateValues := updateValues b @ [val]\<rparr>)
       (b\<lparr>queryType := UpdateQuery, updateColumns := [], updateValues := []\<rparr>) data"

definition Set :: "gostring \<Rightarrow> 'v \<Rightarrow> 'v QueryBuilder \<Rightarrow> 'v QueryBuilder" where
  "Set column val b =
     b\<lparr>queryType := UpdateQuery, updateColumns := updateColumns b @ [column],
       updateValues := updateValues b @ [val]\<rparr>"

definition Delete :: "'v QueryBuilder \<Rightarrow> 'v QueryBuilder" where
  "Delete b = b\<lparr>queryType := DeleteQuery\<rparr>"

definition Where :: "gostring \<Rightarrow> gostring \<Rightarrow> 'v \<Rightarrow> 'v QueryBuilder \<Rightarrow> 'v QueryBuilder" where
  "Where column operator val b =
     b\<lparr>whereClauses := whereClauses b @
          [\<lparr>Column = column, Operator = operator, Value = val, JoinType = ''and''\<rparr>]\<rparr>"

definition OrWhere :: "gostring \<Rightarrow> gostring \<Rightarrow> 'v \<Rightarrow> 'v QueryBuilder \<Rightarrow> 'v QueryBuilder" where
  "OrWhere column operator val b =
     b\<lparr>whereClauses := whereClauses b @
          [\<lparr>Column = column, Operator = operator, Value = val, JoinType = ''or''\<rparr>]\<rparr>"

definition OrderBy :: "gostring \<Rightarrow> 'v QueryBuilder \<Rightarrow> 'v QueryBuilder" where
  "OrderBy ord b = b\<lparr>order := ord\<rparr>"

definition Limit :: "int \<Rightarrow> 'v QueryBuilder \<Rightarrow> 'v QueryBuilder" where
  "Limit n b = b\<lparr>limit := n\<rparr>"

definition Offset :: "int \<Rightarrow> 'v QueryBuilder \<Rightarrow> 'v QueryBuilder" where
  "Offset n b = b\<lparr>offset := n\<rparr>"

text \<open>
  The ten join methods differ in the \<open>Type\<close> string and in whether they set \<open>Alias\<close>
  (the zero value is the empty string). \<open>appendJoin\<close> is the append they all share.
\<close>

definition appendJoin :: "gostring \<Rightarrow> gostring \<Rightarrow> gostring \<Rightarrow> gostring \<Rightarrow> 'v QueryBuilder \<Rightarrow> 'v QueryBuilder" where
  "appendJoin ty t alias condition b =
     b\<lparr>joinClauses := joinClauses b @
          [\<lparr>Type = ty, JTable = t, Alias = alias, Condition = condition\<rparr>]\<rparr>"

definition Join :: "gostring \<Rightarrow> gostring \<Rightarrow> 'v QueryBuilder \<Rightarrow> 'v QueryBuilder" where
  "Join t condition b = appendJoin ''JOIN'' t [] condition b"

definition LeftJoin :: "gostring \<Rightarrow> gostring \<Rightarrow> 'v QueryBuilder \<Rightarrow> 'v QueryBuilder" where
  "LeftJoin t condition b = appendJoin ''LEFT JOIN'' t [] condition b"

definition RightJoin :: "gostring \<Rightarrow> gostring \<Rightarrow> 'v QueryBuilder \<Rightarrow> 'v QueryBuilder" where
  "RightJoin t condition b = appendJoin ''RIGHT JOIN'' t [] condition b"

definition InnerJoin :: "gostring \<Rightarrow> gostring \<Rightarrow> 'v QueryBuilder \<Rightarrow> 'v QueryBuilder" where
  "InnerJoin t condition b = appendJoin ''INNER JOIN'' t [] condition b"

definition FullJoin :: "gostring \<Rightarrow> gostring \<Rightarrow> 'v QueryBuilder \<Rightarrow> 'v QueryBuilder" where
  "FullJoin t condition b = appendJoin ''FULL JOIN'' t [] condition b"

definition JoinAs :: "gostring \<Rightarrow> gostring \<Rightarrow> gostring \<Rightarrow> 'v QueryBuilder \<Rightarrow> 'v QueryBuilder" where
  "JoinAs t alias condition b = appendJoin ''JOIN'' t alias condition b"

definition LeftJoinAs :: "gostring \<Rightarrow> gostring \<Rightarrow> gostring \<Rightarrow> 'v QueryBuilder \<Rightarrow> 'v QueryBuilder" where
  "LeftJoinAs t alias condition b = appendJoin ''LEFT JOIN'' t alias condition b"

definition RightJoinAs :: "gostring \<Rightarrow> gostring \<Rightarrow> gostring \<Rightarrow> 'v QueryBuilder \<Rightarrow> 'v QueryBuilder" where
  "RightJoinAs t alias condition b = appendJoin ''RIGHT JOIN'' t alias condition b"

definition InnerJoinAs :: "gostring \<Rightarrow> gostring \<Rightarrow> gostring \<Rightarrow> 'v QueryBuilder \<Rightarrow> 'v QueryBuilder" where
  "InnerJoinAs t alias condition b = appendJoin ''INNER JOIN'' t alias condition b"

definition FullJoinAs :: "gostring \<Rightarrow> gostring \<Rightarrow> gostring \<Rightarrow> 'v QueryBuilder \<Rightarrow> 'v QueryBuilder" where
  "FullJoinAs t alias condition b = appendJoin ''FULL JOIN'' t alias condition b"

definition As :: "gostring \<Rightarrow> 'v QueryBuilder \<Rightarrow> 'v QueryBuilder" where
  "As alias b = b\<lparr>tableAlias := alias\<rparr>"

section \<open>Rendering\<close>

definition getPlaceholder :: "ParameterStyle \<Rightarrow> nat \<Rightarrow> gostring" where
  "getPlaceholder style index =
     (if style = QuestionMark then ''?''
      else if style = DollarNumber then ''$'' @ formatInt (int index)
      else ''$'' @ formatInt (int index))"

text \<open>
  The loop of \<open>buildWhereClause\<close>. Its state is the string builder, the parameter slice
  and the running \<open>paramCount\<close>; \<open>i\<close> is the index of the \<open>range\<close> loop.
\<close>

fun whereLoop ::
  "ParameterStyle \<Rightarrow> 'v WhereClause list \<Rightarrow> nat \<Rightarrow> gostring \<times> 'v list \<times> nat
     \<Rightarrow> gostring \<times> 'v list \<times> nat" where
  "whereLoop style [] i (query, params, paramCount) = (query, params, paramCount)"
| "whereLoop style (w # ws) i (query, params, paramCount) =
     (let query = (if i > 0 then query @ ('' '' @ JoinType w @ '' '') else query);
          paramCount = paramCount + 1;
          query = query @ safeIdentifier (Column w);
          query = query @ ('' '' @ escapeIdentifier (Operator w) @ '' ''
                    @ getPlaceholder style paramCount);
          params = params @ [Value w]
      in whereLoop style ws (i + 1) (query, params, paramCount))"

definition buildWhereClause :: "'v QueryBuilder \<Rightarrow> nat \<Rightarrow> gostring \<times> 'v list \<times> nat" where
  "buildWhereClause b paramCount =
     whereLoop (paramStyle b) (whereClauses b) 0 ('' where '', [], paramCount)"

text \<open>The loop over \<open>b.joinClauses\<close> in \<open>buildSelect\<close>, writing to the string builder.\<close>

fun joinLoop :: "JoinClause list \<Rightarrow> gostring \<Rightarrow> gostring" where
  "joinLoop [] query = query"
| "joinLoop (j # js) query =
     (let query = query @ '' '';
          query = query @ Type j;
          query = query @ '' '';
          query = query @ safeIdentifier (JTable j);
          query = (if Alias j \<noteq> [] then query @ '' as '' @ safeIdentifier (Alias j) else query);
          query = query @ '' on '';
          query = query @ escapeIdentifier (Condition j)
      in joinLoop js query)"

text \<open>
  The three clauses that close a statement. \<open>buildSelect\<close> writes all of them,
  \<open>buildUpdate\<close> and \<open>buildDelete\<close> write the first two.
\<close>

definition writeOrderBy :: "'v QueryBuilder \<Rightarrow> gostring \<Rightarrow> gostring" where
  "writeOrderBy b query =
     (if order b \<noteq> [] then query @ '' order by '' @ safeIdentifier (order b) else query)"

definition writeLimit :: "'v QueryBuilder \<Rightarrow> gostring \<Rightarrow> gostring" where
  "writeLimit b query =
     (if limit b > 0 then query @ ('' limit '' @ formatInt (limit b)) else query)"

definition writeOffset :: "'v QueryBuilder \<Rightarrow> gostring \<Rightarrow> gostring" where
  "writeOffset b query =
     (if offset b > 0 then query @ ('' offset '' @ formatInt (offset b)) else query)"

definition buildSelect :: "'v QueryBuilder \<Rightarrow> 'v Query" where
  "buildSelect b =
     (let query = ''select '';
          safeColumns = map safeIdentifier (columns b);
          query = query @ stringsJoin safeColumns '', '';
          query = query @ '' from '';
          query = query @ safeIdentifier (table b);
          query = (if tableAlias b \<noteq> [] then query @ '' as '' @ safeIdentifier (tableAlias b)
                   else query);
          query = joinLoop (joinClauses b) query;
          (query, params) =
            (if length (whereClauses b) > 0
             then (let (whereSQL, whereParams, count) = buildWhereClause b 0
                   in (query @ whereSQL, [] @ whereParams))
             else (query, []));
          query = writeOrderBy b query;
          query = writeLimit b query;
          query = writeOffset b query
      in \<lparr>SQL = query, Params = params\<rparr>)"

definition buildInsert :: "'v QueryBuilder \<Rightarrow> 'v Query" where
  "buildInsert b =
     (let query = ''insert into '';
          query = query @ safeIdentifier (table b)
      in if length (insertColumns b) > 0
         then (let query = query @ '' ('';
                   safeColumns = map safeIdentifier (insertColumns b);
                   query = query @ stringsJoin safeColumns '', '';
                   query = query @ '') values ('';
                   placeholders = map (\<lambda>i. getPlaceholder (paramStyle b) (i + 1))
                                    [0..<length (insertValues b)];
                   query = query @ stringsJoin placeholders '', '';
                   query = query @ '')''
               in \<lparr>SQL = query, Params = [] @ insertValues b\<rparr>)
         else \<lparr>SQL = query, Params = []\<rparr>)"

text \<open>
  The SET loop of \<open>buildUpdate\<close>: \<open>setClauses\<close> is allocated with one entry for each
  update column and entry \<open>i\<close> is assigned in round \<open>i\<close>, after \<open>paramCount\<close> is
  incremented.
\<close>

fun setLoop ::
  "ParameterStyle \<Rightarrow> gostring list \<Rightarrow> nat \<Rightarrow> gostring list \<times> nat \<Rightarrow> gostring list \<times> nat" where
  "setLoop style [] i (setClauses, paramCount) = (setClauses, paramCount)"
| "setLoop style (column # rest) i (setClauses, paramCount) =
     (let paramCount = paramCount + 1;
          setClauses = setClauses[i := safeIdentifier column @ '' = ''
                                        @ getPlaceholder style paramCount]
      in setLoop style rest (i + 1) (setClauses, paramCount))"

definition buildUpdate :: "'v QueryBuilder \<Rightarrow> 'v Query" where
  "buildUpdate b =
     (let query = ''update '';
          query = query @ safeIdentifier (table b);
          query = query @ '' set '';
          (setClauses, paramCount) =
            setLoop (paramStyle b) (updateColumns b) 0
              (replicate (length (updateColumns b)) [], 0);
          query = query @ stringsJoin setClauses '', '';
          params = [] @ updateValues b;
          (query, params) =
            (if length (whereClauses b) > 0
             then (let (whereSQL, whereParams, count) = buildWhereClause b paramCount
                   in (query @ whereSQL, params @ whereParams))
             else (query, params));
          query = writeOrderBy b query;
          query = writeLimit b query
      in \<lparr>SQL = query, Params = params\<rparr>)"

definition buildDelete :: "'v QueryBuilder \<Rightarrow> 'v Query" where
  "buildDelete b =
     (let query = ''delete from '';
          query = query @ safeIdentifier (table b);
          (query, params) =
            (if length (whereClauses b) > 0
             then (let (whereSQL, whereParams, count) = buildWhereClause b 0
                   in (query @ whereSQL, [] @ whereParams))
             else (query, []));
          query = writeOrderBy b query;
          query = writeLimit b query
      in \<lparr>SQL = query, Params = params\<rparr>)"

definition Build :: "'v QueryBuilder \<Rightarrow> 'v Query" where
  "Build b =
     (if queryType b = SelectQuery then buildSelect b
      else if queryType b = InsertQuery then buildInsert b
      else if queryType b = UpdateQuery then buildUpdate b
      else if queryType b = DeleteQuery then buildDelete b
      else buildSelect b)"

section \<open>Sequences of declaration calls\<close>

text \<open>
  One constructor for each exported method that mutates the builder; \<open>run\<close> applies a
  sequence of calls, first to last, to a fresh builder.
\<close>

datatype 'v decl =
    DParameterPlaceholder ParameterStyle
  | DTable gostring
  | DSelect "gostring list"
  | DInsert "(gostring \<times> 'v) list"
  | DInsertColumns "gostring list"
  | DValues "'v list"
  | DUpdate "(gostring \<times> 'v) list"
  | DSet gostring 'v
  | DDelete
  | DWhere gostring gostring 'v
  | DOrWhere gostring gostring 'v
  | DOrderBy gostring
  | DLimit int
  | DOffset int
  | DJoin gostring gostring
  | DLeftJoin gostring gostring
  | DRightJoin gostring gostring
  | DInnerJoin gostring gostring
  | DFullJoin gostring gostring
  | DJoinAs gostring gostring gostring
  | DLeftJoinAs gostring gostring gostring
  | DRightJoinAs gostring gostring gostring
  | DInnerJoinAs gostring gostring gostring
  | DFullJoinAs gostring gostring gostring
  | DAs gostring

fun applyDecl :: "'v decl \<Rightarrow> 'v QueryBuilder \<Rightarrow> 'v QueryBuilder" where
  "applyDecl (DParameterPlaceholder style) b = ParameterPlaceholder style b"
| "applyDecl (DTable t) b = Table t b"
| "applyDecl (DSelect cols) b = Select cols b"
| "applyDecl (DInsert data) b = Insert data b"
| "applyDecl (DInsertColumns cols) b = InsertColumns cols b"
| "applyDecl (DValues vals) b = Values vals b"
| "applyDecl (DUpdate data) b = Update data b"
| "applyDecl (DSet column val) b = Set column val b"
| "applyDecl DDelete b = Delete b"
| "applyDecl (DWhere column operator val) b = Where column operator val b"
| "applyDecl (DOrWhere column operator val) b = OrWhere column operator val b"
| "applyDecl (DOrderBy ord) b = OrderBy ord b"
| "applyDecl (DLimit n) b = Limit n b"
| "applyDecl (DOffset n) b = Offset n b"
| "applyDecl (DJoin t condition) b = Join t condition b"
| "applyDecl (DLeftJoin t condition) b = LeftJoin t condition b"
| "applyDecl (DRightJoin t condition) b = RightJoin t condition b"
| "applyDecl (DInnerJoin t condition) b = InnerJoin t condition b"
| "applyDecl (DFullJoin t condition) b = FullJoin t condition b"
| "applyDecl (DJoinAs t alias condition) b = JoinAs t alias condition b"
| "applyDecl (DLeftJoinAs t alias condition) b = LeftJoinAs t alias condition b"
| "applyDecl (DRightJoinAs t alias condition) b = RightJoinAs t alias condition b"
| "applyDecl (DInnerJoinAs t alias condition) b = InnerJoinAs t alias condition b"
| "applyDecl (DFullJoinAs t alias condition) b = FullJoinAs t alias condition b"
| "applyDecl (DAs alias) b = As alias b"

definition runFrom :: "'v QueryBuilder \<Rightarrow> 'v decl list \<Rightarrow> 'v QueryBuilder" where
  "runFrom b ds = foldl (\<lambda>b d. applyDecl d b) b ds"

definition run :: "'v decl list \<Rightarrow> 'v QueryBuilder" where
  "run ds = runFrom NewQueryBuilder ds"

section \<open>The rendered text as a sequence of pieces\<close>

text \<open>
  To count the placeholders a statement was given, as opposed to the characters \<open>?\<close>
  and \<open>$\<close> that a table or column name may hold, the text is also described as a
  sequence of pieces: \<open>Lit s\<close> is text written as it stands, \<open>Ph n\<close> is the result of one
  call \<open>getPlaceholder(n)\<close>. The definitions below follow the four renderers write by
  write; \<open>BuildFrags_text\<close> proves that rendering the pieces gives the text of \<open>Build\<close>,
  and \<open>renderAll_pieceText\<close> that the rendering of a placeholder is the token itself.
\<close>

datatype frag = Lit gostring | Ph nat

fun render :: "ParameterStyle \<Rightarrow> frag \<Rightarrow> gostring" where
  "render style (Lit s) = s"
| "render style (Ph n) = getPlaceholder style n"

definition renderAll :: "ParameterStyle \<Rightarrow> frag list \<Rightarrow> gostring" where
  "renderAll style fs = concat (map (render style) fs)"


fun placeholders :: "frag list \<Rightarrow> nat list" where
  "placeholders [] = []"
| "placeholders (Lit s # fs) = placeholders fs"
| "placeholders (Ph n # fs) = n # placeholders fs"


text \<open>
  Round \<open>j\<close> of the loop of \<open>buildWhereClause\<close>, entered with \<open>paramCount = d + j\<close>, and
  round \<open>j\<close> of the SET loop of \<open>buildUpdate\<close>.
\<close>

definition whereClauseFrags :: "nat \<Rightarrow> nat \<Rightarrow> 'v WhereClause \<Rightarrow> frag list" where
  "whereClauseFrags d j w =
     [Lit ((if j > 0 then '' '' @ JoinType w @ '' '' else []) @ safeIdentifier (Column w)
           @ '' '' @ escapeIdentifier (Operator w) @ '' ''),
      Ph (d + j + 1)]"

definition whereFrags :: "'v QueryBuilder \<Rightarrow> nat \<Rightarrow> frag list" where
  "whereFrags b d =
     (if length (whereClauses b) > 0
      then Lit '' where '' #
           concat (map (\<lambda>(j, w). whereClauseFrags d j w) (enumerate 0 (whereClauses b)))
      else [])"

definition setClauseFrags :: "nat \<Rightarrow> gostring \<Rightarrow> frag list" where
  "setClauseFrags j column = [Lit (safeIdentifier column @ '' = ''), Ph (j + 1)]"






section \<open>The JOIN fragment\<close>

text \<open>What one round of the loop over \<open>b.joinClauses\<close> writes.\<close>

definition joinFragment :: "JoinClause \<Rightarrow> gostring" where
  "joinFragment j =
     '' '' @ Type j @ '' '' @ safeIdentifier (JTable j)
     @ (if Alias j \<noteq> [] then '' as '' @ safeIdentifier (Alias j) else [])
     @ '' on '' @ escapeIdentifier (Condition j)"

text \<open>
  The fragment as the specification words it: the keywords \<open>AS\<close> and \<open>ON\<close> in upper
  case, table and alias through the strict policy (\<open>escapeSimpleIdentifier\<close>), the
  condition through the permissive one (\<open>escapeIdentifier\<close>).
\<close>

definition specJoinFragment :: "JoinClause \<Rightarrow> gostring" where
  "specJoinFragment j =
     '' '' @ Type j @ '' '' @ escapeSimpleIdentifier (JTable j)
     @ (if Alias j \<noteq> [] then '' AS '' @ escapeSimpleIdentifier (Alias j) else [])
     @ '' ON '' @ escapeIdentifier (Condition j)"

definition joinKinds :: "gostring list" where
  "joinKinds = [''JOIN'', ''LEFT JOIN'', ''RIGHT JOIN'', ''INNER JOIN'', ''FULL JOIN'']"

section \<open>Joins in the order they were declared\<close>

text \<open>The join clause that one declaration call appends, if it appends one.\<close>

fun declaredJoins :: "'v decl \<Rightarrow> JoinClause list" where
  "declaredJoins (DJoin t c) = [\<lparr>Type = ''JOIN'', JTable = t, Alias = [], Condition = c\<rparr>]"
| "declaredJoins (DLeftJoin t c) = [\<lparr>Type = ''LEFT JOIN'', JTable = t, Alias = [], Condition = c\<rparr>]"
| "declaredJoins (DRightJoin t c) = [\<lparr>Type = ''RIGHT JOIN'', JTable = t, Alias = [], Condition = c\<rparr>]"
| "declaredJoins (DInnerJoin t c) = [\<lparr>Type = ''INNER JOIN'', JTable = t, Alias = [], Condition = c\<rparr>]"
| "declaredJoins (DFullJoin t c) = [\<lparr>Type = ''FULL JOIN'', JTable = t, Alias = [], Condition = c\<rparr>]"
| "declaredJoins (DJoinAs t a c) = [\<lparr>Type = ''JOIN'', JTable = t, Alias = a, Condition = c\<rparr>]"
| "declaredJoins (DLeftJoinAs t a c) = [\<lparr>Type = ''LEFT JOIN'', JTable = t, Alias = a, Condition = c\<rparr>]"
| "declaredJoins (DRightJoinAs t a c) = [\<lparr>Type = ''RIGHT JOIN'', JTable = t, Alias = a, Condition = c\<rparr>]"
| "declaredJoins (DInnerJoinAs t a c) = [\<lparr>Type = ''INNER JOIN'', JTable = t, Alias = a, Condition = c\<rparr>]"
| "declaredJoins (DFullJoinAs t a c) = [\<lparr>Type = ''FULL JOIN'', JTable = t, Alias = a, Condition = c\<rparr>]"
| "declaredJoins _ = []"

section \<open>The renderers with the index check of Go\<close>

text \<open>
  The renderers above fill their slices with \<open>map\<close> and \<open>xs[i := v]\<close>, which cannot
  fail. In Go the assignment \<open>s[i] = v\<close> panics when \<open>i\<close> is not below \<open>len(s)\<close>. The
  renderers are given here a second time, with that check on every assignment by index:
  \<open>safeColumns[i]\<close> in \<open>buildSelect\<close> and \<open>buildInsert\<close>, \<open>placeholders[i]\<close> in
  \<open>buildInsert\<close>, \<open>setClauses[i]\<close> in \<open>buildUpdate\<close>. A renderer returns \<open>Inl\<close> of the
  panic or \<open>Inr\<close> of its query. \<open>assignLoop f xs 0 out\<close> is the loop
  \<open>for i, x := range xs { out[i] = f(i, x) }\<close>.

  No other step of the source can fail. The two regular expressions are constants that
  compile; \<open>fmt.Sprintf\<close>, \<open>strings.Builder\<close>, \<open>strings.Join\<close> and \<open>append\<close> do not
  fail; the pointers in \<open>whereClauses\<close> and \<open>joinClauses\<close> are made by
  \<open>&WhereClause{...}\<close> and \<open>&JoinClause{...}\<close> alone, so none is nil; \<open>buildDelete\<close> and
  \<open>buildWhereClause\<close> assign to no slice element. The declaration methods assign fields,
  append to slices and range over a map, so each of them returns its builder.
\<close>

datatype panic = IndexOutOfRange

definition sliceSet :: "'a list \<Rightarrow> nat \<Rightarrow> 'a \<Rightarrow> panic + 'a list" where
  "sliceSet s i v = (if i < length s then Inr (s[i := v]) else Inl IndexOutOfRange)"

fun assignLoop ::
  "(nat \<Rightarrow> 'a \<Rightarrow> gostring) \<Rightarrow> 'a list \<Rightarrow> nat \<Rightarrow> gostring list \<Rightarrow> panic + gostring list" where
  "assignLoop f [] i out = Inr out"
| "assignLoop f (x # xs) i out =
     (case sliceSet out i (f i x) of
        Inl p \<Rightarrow> Inl p
      | Inr out \<Rightarrow> assignLoop f xs (i + 1) out)"

fun setLoopP ::
  "ParameterStyle \<Rightarrow> gostring list \<Rightarrow> nat \<Rightarrow> gostring list \<times> nat
     \<Rightarrow> panic + gostring list \<times> nat" where
  "setLoopP style [] i (setClauses, paramCount) = Inr (setClauses, paramCount)"
| "setLoopP style (column # rest) i (setClauses, paramCount) =
     (let paramCount = paramCount + 1
      in case sliceSet setClauses i
                (safeIdentifier column @ '' = '' @ getPlaceholder style paramCount) of
           Inl p \<Rightarrow> Inl p
         | Inr setClauses \<Rightarrow> setLoopP style rest (i + 1) (setClauses, paramCount))"

definition buildSelectP :: "'v QueryBuilder \<Rightarrow> panic + 'v Query" where
  "buildSelectP b =
     (case assignLoop (\<lambda>i col. safeIdentifier col) (columns b) 0
             (replicate (length (columns b)) []) of
        Inl p \<Rightarrow> Inl p
      | Inr safeColumns \<Rightarrow>
          Inr (let query = ''select '';
                   query = query @ stringsJoin safeColumns '', '';
                   query = query @ '' from '';
                   query = query @ safeIdentifier (table b);
                   query = (if tableAlias b \<noteq> []
                            then query @ '' as '' @ safeIdentifier (tableAlias b) else query);
                   query = joinLoop (joinClauses b) query;
                   (query, params) =
                     (if length (whereClauses b) > 0
                      then (let (whereSQL, whereParams, count) = buildWhereClause b 0
                            in (query @ whereSQL, [] @ whereParams))
                      else (query, []));
                   query = writeOrderBy b query;
                   query = writeLimit b query;
                   query = writeOffset b query
               in \<lparr>SQL = query, Params = params\<rparr>))"

definition buildInsertP :: "'v QueryBuilder \<Rightarrow> panic + 'v Query" where
  "buildInsertP b =
     (let query = ''insert into '';
          query = query @ safeIdentifier (table b)
      in if length (insertColumns b) > 0
         then (case assignLoop (\<lambda>i col. safeIdentifier col) (insertColumns b) 0
                      (replicate (length (insertColumns b)) []) of
                 Inl p \<Rightarrow> Inl p
               | Inr safeColumns \<Rightarrow>
                   (case assignLoop (\<lambda>i v. getPlaceholder (paramStyle b) (i + 1))
                           (insertValues b) 0 (replicate (length (insertValues b)) []) of
                      Inl p \<Rightarrow> Inl p
                    | Inr phs \<Rightarrow>
                        Inr (let query = query @ '' ('';
                                 query = query @ stringsJoin safeColumns '', '';
                                 query = query @ '') values ('';
                                 query = query @ stringsJoin phs '', '';
                                 query = query @ '')''
                             in \<lparr>SQL = query, Params = [] @ insertValues b\<rparr>)))
         else Inr \<lparr>SQL = query, Params = []\<rparr>)"

definition buildUpdateP :: "'v QueryBuilder \<Rightarrow> panic + 'v Query" where
  "buildUpdateP b =
     (case setLoopP (paramStyle b) (updateColumns b) 0
             (replicate (length (updateColumns b)) [], 0) of
        Inl p \<Rightarrow> Inl p
      | Inr (setClauses, paramCount) \<Rightarrow>
          Inr (let query = ''update '';
                   query = query @ safeIdentifier (table b);
                   query = query @ '' set '';
                   query = query @ stringsJoin setClauses '', '';
                   params = [] @ updateValues b;
                   (query, params) =
                     (if length (whereClauses b) > 0
                      then (let (whereSQL, whereParams, count) = buildWhereClause b paramCount
                            in (query @ whereSQL, params @ whereParams))
                      else (query, params));
                   query = writeOrderBy b query;
                   query = writeLimit b query
               in \<lparr>SQL = query, Params = params\<rparr>))"

definition buildDeleteP :: "'v QueryBuilder \<Rightarrow> panic + 'v Query" where
  "buildDeleteP b = Inr (buildDelete b)"

definition BuildP :: "'v QueryBuilder \<Rightarrow> panic + 'v Query" where
  "BuildP b =
     (if queryType b = SelectQuery then buildSelectP b
      else if queryType b = InsertQuery then buildInsertP b
      else if queryType b = UpdateQuery then buildUpdateP b
      else if queryType b = DeleteQuery then buildDeleteP b
      else buildSelectP b)"

section \<open>Facts about the library functions\<close>

lemma Contains_single: "Contains s [c] = (c \<in> set s)"
  by (induction s) auto

lemma ReplaceAll_single:
  "ReplaceAll s [c] new = concat (map (\<lambda>x. if x = c then new else [x]) s)"
  by (induction s) auto

lemma formatInt_int: "formatInt (int n) = digits n"
  by (simp add: formatInt_def)

lemma getPlaceholder_dollar: "getPlaceholder DollarNumber n = ''$'' @ digits n"
  by (simp add: getPlaceholder_def formatInt_int DollarNumber_def QuestionMark_def)

subsection \<open>Rendering and counting pieces\<close>

lemma renderAll_append: "renderAll style (fs @ gs) = renderAll style fs @ renderAll style gs"
  by (simp add: renderAll_def)

lemma renderAll_Nil: "renderAll style [] = []"
  by (simp add: renderAll_def)

lemma renderAll_Cons: "renderAll style (f # fs) = render style f @ renderAll style fs"
  by (simp add: renderAll_def)

lemma renderAll_concat:
  "renderAll style (concat fss) = concat (map (renderAll style) fss)"
  by (induction fss) (simp_all add: renderAll_append renderAll_Nil)





section \<open>Closed forms of the loops and of the renderers\<close>

text \<open>
  Each loop of the source is a recursion over an accumulator; the lemmas below give
  what it has written when it ends.
\<close>

lemma whereLoop_closed:
  "whereLoop style ws i (q, ps, i + d) =
     (q @ renderAll style (concat (map (\<lambda>(j, w). whereClauseFrags d j w) (enumerate i ws))),
      ps @ map Value ws, i + d + length ws)"
proof (induction ws arbitrary: i q ps)
  case Nil
  show ?case by (simp add: renderAll_Nil)
next
  case (Cons w ws)
  have "whereLoop style (w # ws) i (q, ps, i + d) =
        whereLoop style ws (Suc i)
          (q @ renderAll style (whereClauseFrags d i w), ps @ [Value w], Suc i + d)"
    by (simp add: Let_def whereClauseFrags_def renderAll_Cons renderAll_Nil add.commute)
  also have "\<dots> = (q @ renderAll style (whereClauseFrags d i w)
                     @ renderAll style (concat (map (\<lambda>(j, w). whereClauseFrags d j w)
                                                   (enumerate (Suc i) ws))),
                   ps @ Value w # map Value ws, Suc i + d + length ws)"
    using Cons.IH [of "Suc i"] by simp
  finally show ?case by (simp add: renderAll_append)
qed

lemma buildWhereClause_closed:
  "buildWhereClause b d =
     ('' where '' @ renderAll (paramStyle b)
         (concat (map (\<lambda>(j, w). whereClauseFrags d j w) (enumerate 0 (whereClauses b)))),
      map Value (whereClauses b), d + length (whereClauses b))"
  using whereLoop_closed [of "paramStyle b" "whereClauses b" 0 "'' where ''" "[]" d]
  by (simp add: buildWhereClause_def)

lemma setLoop_closed:
  "i + length cols \<le> length sc \<Longrightarrow>
   setLoop style cols i (sc, i) =
     (take i sc @ map (\<lambda>(j, c). renderAll style (setClauseFrags j c)) (enumerate i cols)
        @ drop (i + length cols) sc,
      i + length cols)"
proof (induction cols arbitrary: i sc)
  case Nil
  show ?case by simp
next
  case (Cons c cols)
  let ?x = "renderAll style (setClauseFrags i c)"
  have i: "i < length sc" using Cons.prems by simp
  have "setLoop style (c # cols) i (sc, i) = setLoop style cols (Suc i) (sc[i := ?x], Suc i)"
    by (simp add: Let_def setClauseFrags_def renderAll_Cons renderAll_Nil)
  also have "\<dots> = (take (Suc i) (sc[i := ?x])
                     @ map (\<lambda>(j, c). renderAll style (setClauseFrags j c)) (enumerate (Suc i) cols)
                     @ drop (Suc i + length cols) (sc[i := ?x]),
                   Suc i + length cols)"
    using Cons.prems by (intro Cons.IH) simp
  also have "take (Suc i) (sc[i := ?x]) = take i sc @ [?x]"
    using i by (simp add: take_Suc_conv_app_nth)
  also have "drop (Suc i + length cols) (sc[i := ?x]) = drop (Suc i + length cols) sc"
    by (simp add: drop_update_cancel)
  finally show ?case by simp
qed

lemma writeOrderBy_append: "writeOrderBy b q = q @ writeOrderBy b []"
  by (simp add: writeOrderBy_def)

lemma writeLimit_append: "writeLimit b q = q @ writeLimit b []"
  by (simp add: writeLimit_def)

lemma writeOffset_append: "writeOffset b q = q @ writeOffset b []"
  by (simp add: writeOffset_def)

lemma joinLoop_closed: "joinLoop js q = q @ concat (map joinFragment js)"
  by (induction js arbitrary: q) (simp_all add: Let_def joinFragment_def)


lemma whereFrags_text:
  "renderAll (paramStyle b) (whereFrags b d) =
     (if length (whereClauses b) > 0 then fst (buildWhereClause b d) else [])"
  by (simp add: whereFrags_def buildWhereClause_closed renderAll_Cons renderAll_Nil)

lemma buildSelect_closed:
  "buildSelect b =
     \<lparr>SQL = ''select '' @ stringsJoin (map safeIdentifier (columns b)) '', '' @ '' from ''
             @ safeIdentifier (table b)
             @ (if tableAlias b \<noteq> [] then '' as '' @ safeIdentifier (tableAlias b) else [])
             @ concat (map joinFragment (joinClauses b))
             @ renderAll (paramStyle b) (whereFrags b 0)
             @ writeOffset b (writeLimit b (writeOrderBy b [])),
      Params = map Value (whereClauses b)\<rparr>"
proof -
  have tail: "\<And>q. writeOffset b (writeLimit b (writeOrderBy b q))
                 = q @ writeOffset b (writeLimit b (writeOrderBy b []))"
    by (simp add: writeOrderBy_def writeLimit_def writeOffset_def)
  show ?thesis
    unfolding buildSelect_def Let_def
    by (subst tail) (simp add: joinLoop_closed whereFrags_text buildWhereClause_closed)
qed


lemma setLoop_initial:
  "setLoop style cols 0 (replicate (length cols) [], 0) =
     (map (\<lambda>(j, c). renderAll style (setClauseFrags j c)) (enumerate 0 cols), length cols)"
  using setLoop_closed [of 0 cols "replicate (length cols) []" style] by simp

lemma buildUpdate_closed:
  "buildUpdate b =
     \<lparr>SQL = ''update '' @ safeIdentifier (table b) @ '' set ''
             @ stringsJoin (map (\<lambda>(j, c). renderAll (paramStyle b) (setClauseFrags j c))
                              (enumerate 0 (updateColumns b))) '', ''
             @ renderAll (paramStyle b) (whereFrags b (length (updateColumns b)))
             @ writeLimit b (writeOrderBy b []),
      Params = updateValues b @ map Value (whereClauses b)\<rparr>"
proof -
  have tail: "\<And>q. writeLimit b (writeOrderBy b q) = q @ writeLimit b (writeOrderBy b [])"
    by (simp add: writeOrderBy_def writeLimit_def)
  show ?thesis
    unfolding buildUpdate_def Let_def setLoop_initial
    by (subst tail) (simp add: whereFrags_text buildWhereClause_closed)
qed

section \<open>The pieces render to the text of the build\<close>









section \<open>The ordinals of the placeholders\<close>







section \<open>What every sequence of declaration calls preserves\<close>

text \<open>
  \<open>Update\<close> and \<open>Set\<close> are the only methods that write the update columns and
  the update values, and they write both: the two slices always have the same length.
\<close>

lemma runFrom_append: "runFrom b (ds @ [d]) = applyDecl d (runFrom b ds)"
  by (simp add: runFrom_def)






text \<open>Only the ten join methods touch \<open>joinClauses\<close>, and each appends one clause.\<close>

lemma Insert_joinClauses: "joinClauses (Insert data b) = joinClauses b"
proof -
  have "joinClauses (foldl (\<lambda>b (column, val).
              b\<lparr>insertColumns := insertColumns b @ [column],
                insertValues := insertValues b @ [val]\<rparr>) b0 data) = joinClauses b0"
    for b0 :: "'a QueryBuilder"
    by (induction data arbitrary: b0) (auto simp: split_def)
  then show ?thesis by (simp add: Insert_def)
qed

lemma Update_joinClauses: "joinClauses (Update data b) = joinClauses b"
proof -
  have "joinClauses (foldl (\<lambda>b (column, val).
              b\<lparr>updateColumns := updateColumns b @ [column],
                updateValues := updateValues b @ [val]\<rparr>) b0 data) = joinClauses b0"
    for b0 :: "'a QueryBuilder"
    by (induction data arbitrary: b0) (auto simp: split_def)
  then show ?thesis by (simp add: Update_def)
qed

lemma applyDecl_joinClauses:
  "joinClauses (applyDecl d b) = joinClauses b @ declaredJoins d"
  by (cases d)
     (simp_all add: ParameterPlaceholder_def Table_def Select_def Let_def Insert_joinClauses
        InsertColumns_def Values_def Update_joinClauses Set_def Delete_def Where_def OrWhere_def
        OrderBy_def Limit_def Offset_def appendJoin_def Join_def LeftJoin_def RightJoin_def
        InnerJoin_def FullJoin_def JoinAs_def LeftJoinAs_def RightJoinAs_def InnerJoinAs_def
        FullJoinAs_def As_def)

lemma run_joinClauses: "joinClauses (run ds) = concat (map declaredJoins ds)"
proof (induction ds rule: rev_induct)
  case Nil
  show ?case by (simp add: run_def runFrom_def NewQueryBuilder_def)
next
  case (snoc d ds)
  then show ?case
    by (simp add: run_def runFrom_append applyDecl_joinClauses)
qed

lemma declaredJoins_kinds: "list_all (\<lambda>j. Type j \<in> set joinKinds) (declaredJoins d)"
  by (cases d) (simp_all add: joinKinds_def)

lemma declared_join_kinds:
  "list_all (\<lambda>j. Type j \<in> set joinKinds) (concat (map declaredJoins ds))"
  by (induction ds) (simp_all add: declaredJoins_kinds)



section \<open>No assignment by index is out of range\<close>

text \<open>
  Each slice is allocated with the length of the slice the loop ranges over, so every
  index is in range and the checked renderers return what the unchecked ones compute.
\<close>

lemma assignLoop_closed:
  "i + length xs \<le> length out \<Longrightarrow>
   assignLoop f xs i out =
     Inr (take i out @ map (\<lambda>(j, x). f j x) (enumerate i xs) @ drop (i + length xs) out)"
proof (induction xs arbitrary: i out)
  case Nil
  show ?case by simp
next
  case (Cons x xs)
  have i: "i < length out" using Cons.prems by simp
  have "assignLoop f (x # xs) i out = assignLoop f xs (Suc i) (out[i := f i x])"
    using i by (simp add: sliceSet_def)
  also have "\<dots> = Inr (take (Suc i) (out[i := f i x])
                     @ map (\<lambda>(j, x). f j x) (enumerate (Suc i) xs)
                     @ drop (Suc i + length xs) (out[i := f i x]))"
    using Cons.prems by (intro Cons.IH) simp
  also have "take (Suc i) (out[i := f i x]) = take i out @ [f i x]"
    using i by (simp add: take_Suc_conv_app_nth)
  also have "drop (Suc i + length xs) (out[i := f i x]) = drop (Suc i + length xs) out"
    by (simp add: drop_update_cancel)
  finally show ?case by simp
qed

lemma assignLoop_initial:
  "assignLoop f xs 0 (replicate (length xs) []) = Inr (map (\<lambda>(j, x). f j x) (enumerate 0 xs))"
  using assignLoop_closed [of 0 xs "replicate (length xs) []" f] by simp

lemma map_enumerate_snd: "map (\<lambda>(j, x). g x) (enumerate i xs) = map g xs"
  by (induction xs arbitrary: i) simp_all

lemma map_enumerate_fst: "map (\<lambda>(j, x). h j) (enumerate i xs) = map h [i..<i + length xs]"
proof (induction xs arbitrary: i)
  case Nil
  show ?case by simp
next
  case (Cons x xs)
  have "[i..<i + length (x # xs)] = i # [Suc i..<Suc i + length xs]"
    by (simp add: upt_conv_Cons del: upt_Suc)
  then show ?case using Cons.IH [of "Suc i"] by simp
qed

lemma setLoopP_closed:
  "i + length cols \<le> length sc \<Longrightarrow>
   setLoopP style cols i (sc, pc) = Inr (setLoop style cols i (sc, pc))"
proof (induction cols arbitrary: i sc pc)
  case Nil
  show ?case by simp
next
  case (Cons c cols)
  then show ?case by (simp add: sliceSet_def Let_def)
qed

lemma buildSelectP_buildSelect: "buildSelectP b = Inr (buildSelect b)"
  by (simp add: buildSelectP_def buildSelect_def assignLoop_initial map_enumerate_snd)

lemma buildInsertP_buildInsert: "buildInsertP b = Inr (buildInsert b)"
  using map_enumerate_fst [of "\<lambda>i. getPlaceholder (paramStyle b) (i + 1)" 0 "insertValues b"]
  by (simp add: buildInsertP_def buildInsert_def assignLoop_initial map_enumerate_snd Let_def)

lemma buildUpdateP_buildUpdate: "buildUpdateP b = Inr (buildUpdate b)"
proof -
  obtain setClauses paramCount where
    s: "setLoop (paramStyle b) (updateColumns b) 0 (replicate (length (updateColumns b)) [], 0)
        = (setClauses, paramCount)"
    by (cases "setLoop (paramStyle b) (updateColumns b) 0
                 (replicate (length (updateColumns b)) [], 0)")
  have "setLoopP (paramStyle b) (updateColumns b) 0 (replicate (length (updateColumns b)) [], 0)
        = Inr (setClauses, paramCount)"
    using setLoopP_closed [of 0 "updateColumns b" "replicate (length (updateColumns b)) []"
        "paramStyle b" 0] s
    by simp
  then show ?thesis
    by (simp add: buildUpdateP_def buildUpdate_def s)
qed

lemma BuildP_Build: "BuildP b = Inr (Build b)"
  by (simp add: BuildP_def Build_def buildSelectP_buildSelect buildInsertP_buildInsert
      buildUpdateP_buildUpdate buildDeleteP_def)

section \<open>The claims\<close>

subsection \<open>Identifier safety\<close>

text \<open>
  Claim C1. An identifier that contains a denylisted keyword, in any mix of cases, is
  meant to be rendered without that keyword. \<open>escapeIdentifier\<close> removes the keyword
  matches in a single pass, so a keyword wrapped around another one is put together by
  the removal itself: in the table name below, removing \<open>DROP\<close> from \<open>DRDROPOP\<close> leaves
  \<open>DROP\<close>, and the rendered text holds \<open>DROP TABLE accounts\<close>, the text that the
  repository's own test of the table position forbids.
\<close>

theorem nested_keyword_survives:
  "Build (Select [''id'', ''name'']
            (Table ''users; DRDROPOP TABLE accounts; --'' (NewQueryBuilder :: unit QueryBuilder)))
     = \<lparr>SQL = ''select id, name from '' @ [dquote] @ ''users; DROP TABLE accounts; --''
               @ [dquote],
        Params = []\<rparr>
   \<and> Contains (map lowerAscii ''users; DRDROPOP TABLE accounts; --'') ''drop''
   \<and> Contains (SQL (Build (Select [''id'', ''name'']
            (Table ''users; DRDROPOP TABLE accounts; --'' (NewQueryBuilder :: unit QueryBuilder)))))
         ''DROP TABLE accounts''"
  by code_simp

text \<open>
  Claim C2, as amended. The claim says that an identifier the classifier rejects goes
  through the strict policy. \<open>safeIdentifier\<close> calls \<open>escapeIdentifier\<close>, the permissive
  policy: the keyword matches are removed and every other byte is kept, also the bytes
  outside letters, digits, underscore, dot and asterisk. The result has every double
  quote doubled and is wrapped in double quotes.
\<close>

theorem safeIdentifier_unsafe:
  assumes "\<not> isValidIdentifier identifier"
  shows "safeIdentifier identifier =
     [dquote] @ concat (map (\<lambda>c. if c = dquote then [dquote, dquote] else [c])
                          (escapeIdentifier identifier)) @ [dquote]"
  using assms by (simp add: safeIdentifier_def ReplaceAll_single Let_def)

theorem safeIdentifier_unsafe_witness:
  "\<not> isValidIdentifier ''a b--'' \<and> safeIdentifier ''a b--'' = [dquote] @ ''a b--'' @ [dquote]"
proof -
  have v: "\<not> isValidIdentifier ''a b--''" by code_simp
  have e: "escapeIdentifier ''a b--'' = ''a b--''" by code_simp
  have q: "concat (map (\<lambda>c. if c = dquote then [dquote, dquote] else [c]) ''a b--'') = ''a b--''"
    by code_simp
  show ?thesis using v safeIdentifier_unsafe [OF v] by (simp only: e q simp_thms)
qed

text \<open>
  Claim C2 as stated fails: \<open>a b--\<close> is rejected by the classifier (it holds \<open>--\<close>), the
  strict policy turns it into \<open>ab\<close>, and \<open>safeIdentifier\<close> returns it with the space and
  the dashes in place.
\<close>

theorem safeIdentifier_strict_counterexample:
  "\<not> isValidIdentifier ''a b--'' \<and> escapeSimpleIdentifier ''a b--'' = ''ab''
   \<and> safeIdentifier ''a b--'' = [dquote] @ ''a b--'' @ [dquote]
   \<and> safeIdentifier ''a b--'' \<noteq>
       [dquote] @ ReplaceAll (escapeSimpleIdentifier ''a b--'') [dquote] [dquote, dquote]
       @ [dquote]"
  by code_simp

text \<open>
  Claim C3, as amended. An identifier that the classifier accepts is returned byte for
  byte if, in addition, it holds neither a double quote nor a single quote: the guard
  of \<open>safeIdentifier\<close> tests the two quotes besides the classifier.
\<close>

theorem safeIdentifier_passthrough:
  assumes "isValidIdentifier identifier"
    and "dquote \<notin> set identifier" and "squote \<notin> set identifier"
  shows "safeIdentifier identifier = identifier"
  using assms by (simp add: safeIdentifier_def Contains_single)

theorem safeIdentifier_passthrough_witness:
  "isValidIdentifier ''users.id'' \<and> dquote \<notin> set ''users.id'' \<and> squote \<notin> set ''users.id''
   \<and> safeIdentifier ''users.id'' = ''users.id''"
proof -
  have v: "isValidIdentifier ''users.id''" by code_simp
  have d: "dquote \<notin> set ''users.id''" by code_simp
  have s: "squote \<notin> set ''users.id''" by code_simp
  show ?thesis using v d s safeIdentifier_passthrough [OF v d s] by simp
qed

text \<open>
  Claim C3 as stated fails: the classifier accepts \<open>a'b\<close> (a single quote alone is not
  one of its patterns), and \<open>safeIdentifier\<close> wraps it in double quotes.
\<close>

theorem safeIdentifier_quote_counterexample:
  "isValidIdentifier ''a'b'' \<and> safeIdentifier ''a'b'' = [dquote] @ ''a'b'' @ [dquote]
   \<and> safeIdentifier ''a'b'' \<noteq> ''a'b''"
  by code_simp

subsection \<open>Placeholders and parameters\<close>


text \<open>
  Claim C5. In an Update build under \<open>DollarNumber\<close>, the SET clause of update column
  \<open>i\<close> (counted from 0) carries \<open>$(i+1)\<close>, and the predicate \<open>j\<close> of the WHERE clause
  carries \<open>$(M+j+1)\<close>, where \<open>M\<close> is the number of update columns; the parameters are
  the update values followed by the predicate values.
\<close>

theorem buildUpdate_numbering:
  assumes "queryType b = UpdateQuery" and "paramStyle b = DollarNumber"
  shows "SQL (Build b) =
       ''update '' @ safeIdentifier (table b) @ '' set ''
       @ stringsJoin (map (\<lambda>(i, column). safeIdentifier column @ '' = $'' @ digits (i + 1))
                        (enumerate 0 (updateColumns b))) '', ''
       @ (if length (whereClauses b) > 0
          then '' where '' @
               concat (map (\<lambda>(j, w). (if j > 0 then '' '' @ JoinType w @ '' '' else [])
                                     @ safeIdentifier (Column w) @ '' ''
                                     @ escapeIdentifier (Operator w)
                                     @ '' $'' @ digits (length (updateColumns b) + j + 1))
                         (enumerate 0 (whereClauses b)))
          else [])
       @ writeLimit b (writeOrderBy b [])
     \<and> Params (Build b) = updateValues b @ map Value (whereClauses b)"
proof -
  have B: "Build b = buildUpdate b"
    using assms(1)
    by (simp add: Build_def UpdateQuery_def SelectQuery_def InsertQuery_def)
  have S: "(\<lambda>(j, c). renderAll DollarNumber (setClauseFrags j c))
           = (\<lambda>(i, column). safeIdentifier column @ '' = $'' @ digits (i + 1))"
    by (simp add: fun_eq_iff setClauseFrags_def renderAll_Cons renderAll_Nil
        getPlaceholder_dollar)
  have W: "renderAll DollarNumber \<circ> (\<lambda>(j, w). whereClauseFrags d j w)
           = (\<lambda>(j, w :: 'a WhereClause). (if j > 0 then '' '' @ JoinType w @ '' '' else [])
                                     @ safeIdentifier (Column w) @ '' ''
                                     @ escapeIdentifier (Operator w)
                                     @ '' $'' @ digits (d + j + 1))" for d
    by (auto simp: fun_eq_iff whereClauseFrags_def renderAll_Cons renderAll_Nil
        getPlaceholder_dollar)
  show ?thesis
    unfolding B buildUpdate_closed assms(2)
    by (simp add: S W whereFrags_def renderAll_Cons renderAll_Nil renderAll_concat)
qed

theorem buildUpdate_numbering_witness:
  "queryType (Where ''id'' ''='' (1::int) (Update [(''name'', 5), (''email'', 6)]
        (Table ''users'' NewQueryBuilder))) = UpdateQuery
   \<and> paramStyle (Where ''id'' ''='' (1::int) (Update [(''name'', 5), (''email'', 6)]
        (Table ''users'' NewQueryBuilder))) = DollarNumber
   \<and> SQL (Build (Where ''id'' ''='' (1::int) (Update [(''name'', 5), (''email'', 6)]
        (Table ''users'' NewQueryBuilder))))
       = ''update users set name = $1, email = $2 where id = $3''
   \<and> Params (Build (Where ''id'' ''='' (1::int) (Update [(''name'', 5), (''email'', 6)]
        (Table ''users'' NewQueryBuilder)))) = [5, 6, 1]"
proof -
  let ?b = "Where ''id'' ''='' (1::int) (Update [(''name'', 5), (''email'', 6)]
        (Table ''users'' NewQueryBuilder))"
  have q: "queryType ?b = UpdateQuery" by code_simp
  have p: "paramStyle ?b = DollarNumber" by code_simp
  have r: "''update '' @ safeIdentifier (table ?b) @ '' set ''
       @ stringsJoin (map (\<lambda>(i, column). safeIdentifier column @ '' = $'' @ digits (i + 1))
                        (enumerate 0 (updateColumns ?b))) '', ''
       @ (if length (whereClauses ?b) > 0
          then '' where '' @
               concat (map (\<lambda>(j, w). (if j > 0 then '' '' @ JoinType w @ '' '' else [])
                                     @ safeIdentifier (Column w) @ '' ''
                                     @ escapeIdentifier (Operator w)
                                     @ '' $'' @ digits (length (updateColumns ?b) + j + 1))
                         (enumerate 0 (whereClauses ?b)))
          else [])
       @ writeLimit ?b (writeOrderBy ?b [])
       = ''update users set name = $1, email = $2 where id = $3''"
    by code_simp
  have v: "updateValues ?b @ map Value (whereClauses ?b) = [5, 6, 1]" by code_simp
  from buildUpdate_numbering [OF q p] r v
  have "SQL (Build ?b) = ''update users set name = $1, email = $2 where id = $3''"
    and "Params (Build ?b) = [5, 6, 1]"
    by (simp_all only:)
  with q p show ?thesis by (simp only: simp_thms)
qed

text \<open>
  Claim C7 (scenario A): table \<open>users\<close>, three selected columns and one predicate, with
  the default placeholder style.
\<close>

theorem scenario_A_select_where:
  "Build (Where ''age'' ''>'' (18::int)
            (Select [''id'', ''name'', ''email''] (Table ''users'' NewQueryBuilder)))
     = \<lparr>SQL = ''select id, name, email from users where age > $1'', Params = [18]\<rparr>"
  by code_simp

subsection \<open>Joins\<close>

text \<open>
  Claim C6 (scenario D): the join table \<open>accounts; DROP TABLE logs; --\<close>. The rendered
  text is given in full; lowered, it does not hold \<open>drop table\<close>.
\<close>

theorem scenario_D_join_table:
  "SQL (Build (LeftJoin ''accounts; DROP TABLE logs; --'' ''accounts.id = users.account_id''
                 (Table ''users'' (NewQueryBuilder :: unit QueryBuilder))))
     = ''select * from users LEFT JOIN '' @ [dquote] @ ''accounts;  TABLE logs; --'' @ [dquote]
       @ '' on accounts.id = users.account_id''
   \<and> \<not> Contains (ToLower (SQL (Build (LeftJoin ''accounts; DROP TABLE logs; --''
                 ''accounts.id = users.account_id''
                 (Table ''users'' (NewQueryBuilder :: unit QueryBuilder))))))
           ''drop table''"
  by code_simp

text \<open>
  Claim C8, as amended. The joins of a builder are the declared ones in the order of
  their declaration, each of one of the five upper-case kinds. For each of them the Select
  renderer writes \<open>joinFragment\<close>: the kind, the table through \<open>safeIdentifier\<close>, the
  alias (if not empty) after \<open>as\<close> in lower case and through \<open>safeIdentifier\<close>, then
  \<open>on\<close> in lower case and the condition through \<open>escapeIdentifier\<close>. The parameters of
  the statement are the predicate values alone: a join binds none.
\<close>

theorem buildSelect_joins:
  "joinClauses (run ds) = concat (map declaredJoins ds)
   \<and> list_all (\<lambda>j. Type j \<in> set joinKinds) (joinClauses (run ds))
   \<and> SQL (buildSelect b) =
       ''select '' @ stringsJoin (map safeIdentifier (columns b)) '', '' @ '' from ''
       @ safeIdentifier (table b)
       @ (if tableAlias b \<noteq> [] then '' as '' @ safeIdentifier (tableAlias b) else [])
       @ concat (map joinFragment (joinClauses b))
       @ (if length (whereClauses b) > 0 then fst (buildWhereClause b 0) else [])
       @ writeOffset b (writeLimit b (writeOrderBy b []))
   \<and> Params (buildSelect b) = map Value (whereClauses b)"
  by (simp add: run_joinClauses declared_join_kinds buildSelect_closed whereFrags_text)

text \<open>
  Claim C8 as stated fails: the keywords \<open>as\<close> and \<open>on\<close> come out in lower case, and
  the table keeps the space that the strict policy would remove.
\<close>

theorem join_keywords_counterexample:
  "SQL (Build (LeftJoinAs ''user accounts'' ''u'' ''u.id = p.user_id''
                 (Table ''posts'' (NewQueryBuilder :: unit QueryBuilder))))
     = ''select * from posts LEFT JOIN user accounts as u on u.id = p.user_id''
   \<and> specJoinFragment \<lparr>Type = ''LEFT JOIN'', JTable = ''user accounts'', Alias = ''u'',
                         Condition = ''u.id = p.user_id''\<rparr>
     = '' LEFT JOIN useraccounts AS u ON u.id = p.user_id''
   \<and> SQL (Build (LeftJoinAs ''user accounts'' ''u'' ''u.id = p.user_id''
                 (Table ''posts'' (NewQueryBuilder :: unit QueryBuilder))))
     \<noteq> ''select * from posts'' @
        specJoinFragment \<lparr>Type = ''LEFT JOIN'', JTable = ''user accounts'', Alias = ''u'',
                           Condition = ''u.id = p.user_id''\<rparr>"
  by code_simp

subsection \<open>Degenerate declarations\<close>

text \<open>
  Claim C9. With the index check of Go on every slice assignment, \<open>Build\<close> returns a
  query and never a panic, for every builder and hence after every sequence of
  declaration calls, and the query is the one of the unchecked renderers. An Insert
  build without insert columns gives \<open>insert into\<close> and the rendered table, no VALUES
  clause and no parameters, whatever the insert values.
\<close>

theorem Build_never_panics:
  "BuildP b = Inr (Build b)
   \<and> BuildP (run ds) = Inr (Build (run ds))
   \<and> (queryType b = InsertQuery \<and> insertColumns b = [] \<longrightarrow>
        BuildP b = Inr \<lparr>SQL = ''insert into '' @ safeIdentifier (table b), Params = []\<rparr>)"
  by (simp add: BuildP_Build Build_def buildInsert_def Let_def InsertQuery_def SelectQuery_def)

text \<open>
  The malformed declarations the specification lists, each built without a panic: insert
  values without insert columns, no table, a negative limit and offset (both clauses
  are left out), two insert columns for one value, and a WHERE on an Insert (ignored).
\<close>

theorem Build_never_panics_witness:
  "queryType (run [DTable ''users'', DInsertColumns [], DValues [1, 2 :: int]]) = InsertQuery
   \<and> insertColumns (run [DTable ''users'', DInsertColumns [], DValues [1, 2 :: int]]) = []
   \<and> insertValues (run [DTable ''users'', DInsertColumns [], DValues [1, 2 :: int]]) = [1, 2]
   \<and> BuildP (run [DTable ''users'', DInsertColumns [], DValues [1, 2 :: int]])
     = Inr \<lparr>SQL = ''insert into users'', Params = []\<rparr>
   \<and> BuildP (run ([] :: int decl list))
     = Inr \<lparr>SQL = ''select * from '' @ [dquote, dquote], Params = []\<rparr>
   \<and> BuildP (run [DTable ''users'', DLimit (- 5), DOffset (- 1) :: int decl])
     = Inr \<lparr>SQL = ''select * from users'', Params = []\<rparr>
   \<and> BuildP (run [DTable ''users'', DInsertColumns [''a'', ''b''], DValues [1 :: int]])
     = Inr \<lparr>SQL = ''insert into users (a, b) values ($1)'', Params = [1]\<rparr>
   \<and> BuildP (run [DTable ''users'', DInsert [(''name'', 7 :: int)], DWhere ''id'' ''='' 1])
     = Inr \<lparr>SQL = ''insert into users (name) values ($1)'', Params = [7]\<rparr>"
proof -
  let ?ins = "[DTable ''users'', DInsertColumns [], DValues [1, 2 :: int]]"
  let ?neg = "[DTable ''users'', DLimit (- 5), DOffset (- 1) :: int decl]"
  let ?mis = "[DTable ''users'', DInsertColumns [''a'', ''b''], DValues [1 :: int]]"
  let ?whr = "[DTable ''users'', DInsert [(''name'', 7 :: int)], DWhere ''id'' ''='' 1]"
  have q: "queryType (run ?ins) = InsertQuery" by code_simp
  have c: "insertColumns (run ?ins) = []" by code_simp
  have v: "insertValues (run ?ins) = [1, 2]" by code_simp
  have t: "''insert into '' @ safeIdentifier (table (run ?ins)) = ''insert into users''"
    by code_simp
  from Build_never_panics [where b = "run ?ins" and ds = "[]"] q c
  have "BuildP (run ?ins)
        = Inr \<lparr>SQL = ''insert into '' @ safeIdentifier (table (run ?ins)), Params = []\<rparr>"
    by blast
  then have 1: "BuildP (run ?ins) = Inr \<lparr>SQL = ''insert into users'', Params = []\<rparr>"
    by (simp only: t)
  have "Build (run ([] :: int decl list))
        = \<lparr>SQL = ''select * from '' @ [dquote, dquote], Params = []\<rparr>"
    by code_simp
  with Build_never_panics [where b = "run ?ins" and ds = "[] :: int decl list"]
  have 2: "BuildP (run ([] :: int decl list))
           = Inr \<lparr>SQL = ''select * from '' @ [dquote, dquote], Params = []\<rparr>"
    by (simp only:)
  have "Build (run ?neg) = \<lparr>SQL = ''select * from users'', Params = []\<rparr>"
    by code_simp
  with Build_never_panics [where b = "run ?ins" and ds = ?neg]
  have 3: "BuildP (run ?neg) = Inr \<lparr>SQL = ''select * from users'', Params = []\<rparr>"
    by (simp only:)
  have "Build (run ?mis) = \<lparr>SQL = ''insert into users (a, b) values ($1)'', Params = [1]\<rparr>"
    by code_simp
  with Build_never_panics [where b = "run ?ins" and ds = ?mis]
  have 4: "BuildP (run ?mis)
           = Inr \<lparr>SQL = ''insert into users (a, b) values ($1)'', Params = [1]\<rparr>"
    by (simp only:)
  have "Build (run ?whr) = \<lparr>SQL = ''insert into users (name) values ($1)'', Params = [7]\<rparr>"
    by code_simp
  with Build_never_panics [where b = "run ?ins" and ds = ?whr]
  have 5: "BuildP (run ?whr)
           = Inr \<lparr>SQL = ''insert into users (name) values ($1)'', Params = [7]\<rparr>"
    by (simp only:)
  from q c v 1 2 3 4 5 show ?thesis by (simp only: simp_thms)
qed

text \<open>
  Claim C10. \<open>Values\<close> leaves the statement kind as it is. After \<open>Table(t)\<close> and
  \<open>Values\<close> alone the build is a Select of all columns from the rendered table, without
  parameters; when the table name passes the safety layer unchanged, the text is
  \<open>select * from\<close> followed by the name itself.
\<close>

theorem Values_keeps_queryType:
  "queryType (Values vals b) = queryType b
   \<and> Build (Values vals (Table t NewQueryBuilder))
     = \<lparr>SQL = ''select * from '' @ safeIdentifier t, Params = []\<rparr>
   \<and> (isValidIdentifier t \<and> dquote \<notin> set t \<and> squote \<notin> set t \<longrightarrow>
        Build (Values vals (Table t NewQueryBuilder))
          = \<lparr>SQL = ''select * from '' @ t, Params = []\<rparr>)"
proof -
  have star: "safeIdentifier ''*'' = ''*''" by code_simp
  have "Build (Values vals (Table t NewQueryBuilder))
        = \<lparr>SQL = ''select * from '' @ safeIdentifier t, Params = []\<rparr>"
    by (simp add: Build_def buildSelect_closed Values_def Table_def NewQueryBuilder_def
        whereFrags_def renderAll_Nil writeOrderBy_def writeLimit_def writeOffset_def star)
  then show ?thesis
    by (simp add: Values_def safeIdentifier_def Contains_single)
qed

theorem Values_keeps_queryType_witness:
  "isValidIdentifier ''users'' \<and> dquote \<notin> set ''users'' \<and> squote \<notin> set ''users''
   \<and> Build (Values [1, 2, 3 :: int] (Table ''users'' NewQueryBuilder))
     = \<lparr>SQL = ''select * from users'', Params = []\<rparr>"
proof -
  have v: "isValidIdentifier ''users''" by code_simp
  have d: "dquote \<notin> set ''users''" by code_simp
  have s: "squote \<notin> set ''users''" by code_simp
  from Values_keeps_queryType [of "[1, 2, 3 :: int]" NewQueryBuilder "''users''"] v d s
  have "Build (Values [1, 2, 3 :: int] (Table ''users'' NewQueryBuilder))
        = \<lparr>SQL = ''select * from '' @ ''users'', Params = []\<rparr>"
    by blast
  with v d s show ?thesis by simp
qed

end
